theory Spec2Isabelle
  imports Complex_Main "HOL-Library.AList"
begin

section \<open>Python values, exceptions and log records\<close>

text \<open>
  A Python \<open>float\<close> is an IEEE binary64 number. A finite nonzero one, and positive zero,
  is represented by its exact rational value; negative zero, the infinities and
  not-a-number are values of their own.
\<close>

datatype double = Finite rat | NegZero | PosInf | NegInf | NaN

text \<open>
  The scalar values that the variable store and the wire hold: \<open>None\<close>, \<open>bool\<close>,
  \<open>int\<close> (unbounded), \<open>float\<close> and \<open>str\<close>.
\<close>

datatype pyval = PNone | PBool bool | PInt int | PFloat double | PStr string

datatype exc_class =
  NameError | AttributeError | TypeError | ValueError | OverflowError | RpcError

text \<open>An exception: its class and the text that \<open>str(e)\<close> gives.\<close>

datatype exc = Exc exc_class string

fun str_exc :: "exc \<Rightarrow> string" where
  "str_exc (Exc c m) = m"

definition name_error :: "string \<Rightarrow> exc" where
  "name_error n = Exc NameError (''name '' @ [CHR 39] @ n @ [CHR 39] @ '' is not defined'')"

datatype log_level = DEBUG | INFO | WARNING | ERROR

type_synonym log_record = "log_level \<times> string"

section \<open>Dictionaries\<close>

text \<open>
  A Python \<open>dict\<close> keeps its keys unique and in insertion order; assigning to a key that
  is present replaces the value in place, assigning to a new key appends it.
\<close>

type_synonym ('k, 'v) dict = "('k \<times> 'v) list"

definition dict_get :: "('k, 'v) dict \<Rightarrow> 'k \<Rightarrow> 'v option" where
  "dict_get d k = map_of d k"

definition dict_set :: "('k, 'v) dict \<Rightarrow> 'k \<Rightarrow> 'v \<Rightarrow> ('k, 'v) dict" where
  "dict_set d k v = AList.update k v d"

text \<open>\<open>d.update(e)\<close>: the items of \<open>e\<close> are assigned into \<open>d\<close> one by one, in order.\<close>

definition dict_update :: "('k, 'v) dict \<Rightarrow> ('k, 'v) dict \<Rightarrow> ('k, 'v) dict" where
  "dict_update d e = fold (\<lambda>(k, v) acc. dict_set acc k v) e d"

definition dict_keys :: "('k, 'v) dict \<Rightarrow> 'k list" where
  "dict_keys d = map fst d"

section \<open>The wire representation and the collaborators of the module\<close>

text \<open>
  The tagged union that \<open>_extract_value\<close> reads by \<open>WhichOneof('value')\<close> and that
  \<open>_create_typed_value\<close> fills by assigning one field. \<open>Unset\<close> is a message with no
  field set (\<open>WhichOneof\<close> gives \<open>None\<close>); \<open>OtherValue\<close> is a field of the union that the
  client does not name.
\<close>

datatype typed_value =
    BoolValue bool
  | Int8Value int | Int16Value int | Int32Value int | Int64Value int
  | Uint8Value int | Uint16Value int | Uint32Value int | Uint64Value int
  | FloatValue double | DoubleValue double
  | StringValue string
  | OtherValue string
  | Unset

record data_item =
  portName :: string
  item_value :: typed_value

text \<open>
  The remote service behind a stub: what \<open>Read\<close> returns for a list of names (the
  \<open>dataItems\<close> of the reply) and what \<open>Write\<close> does for a list of items, each of
  which may raise.
\<close>

record stub_obj =
  Read :: "string list \<Rightarrow> exc + data_item list"
  Write :: "data_item list \<Rightarrow> exc + unit"

datatype channel_obj = SecureChannel string | InsecureChannel string

text \<open>
  The \<open>grpc\<close> package, imported at the top of the module: for each call the client makes,
  the exception it raises, if any.
\<close>

record grpc_module =
  local_channel_credentials :: "exc option"
  secure_channel :: "string \<Rightarrow> exc option"
  insecure_channel :: "string \<Rightarrow> exc option"

text \<open>
  The message module \<open>plcnext_pb2\<close>: assigning a field of a \<open>TypedValue\<close> is checked by
  the message class, which accepts the assignment or raises.
\<close>

record pb2_module =
  field_check :: "typed_value \<Rightarrow> exc option"

record pb2_grpc_module =
  DataAccessServiceStub :: "channel_obj \<Rightarrow> exc + stub_obj"

text \<open>
  The global names that the methods of \<open>GrpcClient\<close> look up at run time. A name that
  the module never binds is \<open>None\<close> here, and reading it raises \<open>NameError\<close>.
  \<open>float_repr\<close> is \<open>repr\<close> on floats (the shortest text that reads back as the same
  number) and \<open>float_of_str\<close> is \<open>float\<close> on text (\<open>None\<close> where it raises
  \<open>ValueError\<close>); both belong to the interpreter.
\<close>

record module_globals =
  GRPC_AVAILABLE :: "bool option"
  plcnext_pb2 :: "pb2_module option"
  plcnext_pb2_grpc :: "pb2_grpc_module option"
  grpc :: grpc_module
  float_repr :: "double \<Rightarrow> string"
  float_of_str :: "string \<Rightarrow> double option"

text \<open>
  The module as it is written: it imports \<open>grpc\<close> and the \<open>pxc_grpc\<close> classes, and binds
  \<open>HAS_GET_PORT_LIST\<close> and \<open>logger\<close>; it never binds \<open>GRPC_AVAILABLE\<close>, \<open>plcnext_pb2\<close> or
  \<open>plcnext_pb2_grpc\<close>.
\<close>

definition source_globals ::
  "grpc_module \<Rightarrow> (double \<Rightarrow> string) \<Rightarrow> (string \<Rightarrow> double option) \<Rightarrow> module_globals" where
  "source_globals lib fr fs =
     \<lparr>GRPC_AVAILABLE = None, plcnext_pb2 = None, plcnext_pb2_grpc = None,
      grpc = lib, float_repr = fr, float_of_str = fs\<rparr>"

section \<open>Text of values\<close>

definition digit_char :: "nat \<Rightarrow> char" where
  "digit_char d = char_of (48 + d)"

text \<open>The decimal digits of an integer that is not negative.\<close>

function str_digits :: "int \<Rightarrow> string" where
  "str_digits n =
     (if n < 10 then [digit_char (nat n)]
      else str_digits (n div 10) @ [digit_char (nat (n mod 10))])"
  by pat_completeness auto
termination
  by (relation "measure nat") auto

declare str_digits.simps [simp del]

definition str_int :: "int \<Rightarrow> string" where
  "str_int i = (if i < 0 then CHR ''-'' # str_digits (- i) else str_digits i)"

text \<open>\<open>f"{i:02d}"\<close>: the decimal text of \<open>i\<close>, padded with zeros on the left to width 2.\<close>

definition fmt_02d :: "int \<Rightarrow> string" where
  "fmt_02d i = (if 0 \<le> i \<and> i < 10 then CHR ''0'' # str_int i else str_int i)"

text \<open>\<open>str(value)\<close>, which is also what an f-string writes for \<open>{value}\<close>.\<close>

fun py_str :: "module_globals \<Rightarrow> pyval \<Rightarrow> string" where
  "py_str g PNone = ''None''"
| "py_str g (PBool b) = (if b then ''True'' else ''False'')"
| "py_str g (PInt i) = str_int i"
| "py_str g (PFloat x) = float_repr g x"
| "py_str g (PStr s) = s"

section \<open>The client\<close>

record GrpcClient =
  address :: string
  channel :: "channel_obj option"
  stub :: "stub_obj option"
  connected_flag :: bool
  sim_data :: "(string, pyval) dict"

text \<open>
  What a call of a method does: the value it returns or the exception it raises, the
  client after the call, and the records it has sent to the logger.
\<close>

record 'a call =
  outcome :: "exc + 'a"
  self_after :: GrpcClient
  logged :: "log_record list"

subsection \<open>\<open>_init_sim_data\<close>\<close>

definition system_vars :: "(string, pyval) dict" where
  "system_vars =
    [(''Arp.Plc.Eclr/MotoPick.System.Running'', PBool False),
     (''Arp.Plc.Eclr/MotoPick.System.Connected'', PBool False),
     (''Arp.Plc.Eclr/MotoPick.System.Error'', PBool False),
     (''Arp.Plc.Eclr/MotoPick.System.ErrorCode'', PInt 0),
     (''Arp.Plc.Eclr/MotoPick.System.PicksPerMinute'', PFloat (Finite 0)),
     (''Arp.Plc.Eclr/MotoPick.System.TotalPicks'', PInt 0),
     (''Arp.Plc.Eclr/MotoPick.System.MissedItems'', PInt 0)]"

definition robot_prefix :: "int \<Rightarrow> string" where
  "robot_prefix i = ''Arp.Plc.Eclr/MotoPick.Robot'' @ fmt_02d i"

definition robot_vars :: "int \<Rightarrow> (string, pyval) dict" where
  "robot_vars i =
    [(robot_prefix i @ ''.Enabled'', PBool (i \<le> 2)),
     (robot_prefix i @ ''.Running'', PBool False),
     (robot_prefix i @ ''.Error'', PBool False),
     (robot_prefix i @ ''.ErrorCode'', PInt 0),
     (robot_prefix i @ ''.PicksPerMinute'', PFloat (Finite 0)),
     (robot_prefix i @ ''.TotalPicks'', PInt 0),
     (robot_prefix i @ ''.Efficiency'', PFloat (Finite 0)),
     (robot_prefix i @ ''.X'', PFloat (Finite 0)),
     (robot_prefix i @ ''.Y'', PFloat (Finite 0)),
     (robot_prefix i @ ''.Z'', PFloat (Finite 0))]"

definition conveyor_prefix :: "int \<Rightarrow> string" where
  "conveyor_prefix i = ''Arp.Plc.Eclr/MotoPick.Conveyor'' @ fmt_02d i"

definition conveyor_vars :: "int \<Rightarrow> (string, pyval) dict" where
  "conveyor_vars i =
    [(conveyor_prefix i @ ''.Enabled'', PBool (i \<le> 2)),
     (conveyor_prefix i @ ''.Running'', PBool False),
     (conveyor_prefix i @ ''.Speed'', PFloat (Finite 0)),
     (conveyor_prefix i @ ''.ActualSpeed'', PFloat (Finite 0)),
     (conveyor_prefix i @ ''.ItemsDetected'', PInt 0),
     (conveyor_prefix i @ ''.ItemsLeft'', PInt 0)]"

text \<open>
  The literal, then \<open>for i in range(1, 9)\<close> and \<open>for i in range(1, 17)\<close>, each
  iteration one \<open>data.update\<close>.
\<close>

definition init_sim_data :: "(string, pyval) dict" where
  "init_sim_data =
     (let data = dict_update [] system_vars;
          data = fold (\<lambda>i d. dict_update d (robot_vars i)) [1..8] data;
          data = fold (\<lambda>i d. dict_update d (conveyor_vars i)) [1..16] data
      in data)"

subsection \<open>\<open>_connect\<close>\<close>

definition startswith :: "string \<Rightarrow> string \<Rightarrow> bool" where
  "startswith s p = (take (length p) s = p)"

text \<open>
  The channel is opened and stored, then the stub is built and stored, then
  \<open>_connected\<close> is set and the connection is logged. An exception leaves the fields
  assigned so far.
\<close>

definition connect :: "module_globals \<Rightarrow> GrpcClient \<Rightarrow> unit call" where
  "connect g self =
     (let opened =
            (if startswith (address self) ''unix://'' then
               (case local_channel_credentials (grpc g) of
                  Some e \<Rightarrow> Inl e
                | None \<Rightarrow>
                    (case secure_channel (grpc g) (address self) of
                       Some e \<Rightarrow> Inl e
                     | None \<Rightarrow> Inr (SecureChannel (address self))))
             else
               (case insecure_channel (grpc g) (address self) of
                  Some e \<Rightarrow> Inl e
                | None \<Rightarrow> Inr (InsecureChannel (address self))))
      in case opened of
           Inl e \<Rightarrow> \<lparr>outcome = Inl e, self_after = self, logged = []\<rparr>
         | Inr ch \<Rightarrow>
             (let self1 = self\<lparr>channel := Some ch\<rparr> in
              case plcnext_pb2_grpc g of
                None \<Rightarrow>
                  \<lparr>outcome = Inl (name_error ''plcnext_pb2_grpc''), self_after = self1, logged = []\<rparr>
              | Some m \<Rightarrow>
                  (case DataAccessServiceStub m ch of
                     Inl e \<Rightarrow> \<lparr>outcome = Inl e, self_after = self1, logged = []\<rparr>
                   | Inr st \<Rightarrow>
                       \<lparr>outcome = Inr (),
                        self_after = self1\<lparr>stub := Some st, connected_flag := True\<rparr>,
                        logged = [(INFO, ''gRPC connected to '' @ address self)]\<rparr>)))"

subsection \<open>\<open>__init__\<close>\<close>

text \<open>
  The fields are assigned, then \<open>GRPC_AVAILABLE\<close> is read, outside the \<open>try\<close>: when the
  name is not bound the constructor raises \<open>NameError\<close>. Inside the \<open>try\<close>, an exception of
  \<open>_connect\<close> is logged and \<open>_connected\<close> is set to \<open>False\<close>.
\<close>

definition init :: "module_globals \<Rightarrow> string \<Rightarrow> unit call" where
  "init g addr =
     (let self = \<lparr>address = addr, channel = None, stub = None, connected_flag = False,
                  sim_data = init_sim_data\<rparr>
      in case GRPC_AVAILABLE g of
           None \<Rightarrow>
             \<lparr>outcome = Inl (name_error ''GRPC_AVAILABLE''), self_after = self, logged = []\<rparr>
         | Some True \<Rightarrow>
             (let r = connect g self in
              case outcome r of
                Inr u \<Rightarrow> r
              | Inl e \<Rightarrow>
                  \<lparr>outcome = Inr (),
                   self_after = (self_after r)\<lparr>connected_flag := False\<rparr>,
                   logged = logged r @
                     [(ERROR, ''gRPC connection failed: '' @ str_exc e
                                @ ''. Switching to simulation mode.'')]\<rparr>)
         | Some False \<Rightarrow>
             \<lparr>outcome = Inr (), self_after = self,
              logged = [(INFO, ''Running in simulation mode (no gRPC)'')]\<rparr>)"

subsection \<open>\<open>is_connected\<close>\<close>

text \<open>
  \<open>self._connected and GRPC_AVAILABLE\<close>: the global is read only when \<open>_connected\<close> is
  true.
\<close>

definition is_connected :: "module_globals \<Rightarrow> GrpcClient \<Rightarrow> exc + bool" where
  "is_connected g self =
     (if connected_flag self then
        (case GRPC_AVAILABLE g of
           None \<Rightarrow> Inl (name_error ''GRPC_AVAILABLE'')
         | Some b \<Rightarrow> Inr b)
      else Inr False)"

section \<open>Built-in conversions\<close>

subsection \<open>Floats\<close>

text \<open>The number of binary digits of a positive integer.\<close>

function bitlen :: "int \<Rightarrow> int" where
  "bitlen n = (if n \<le> 0 then 0 else 1 + bitlen (n div 2))"
  by pat_completeness auto
termination
  by (relation "measure nat") auto

declare bitlen.simps [simp del]

text \<open>For \<open>a > 0\<close>, the integer \<open>e\<close> with \<open>2 ^ e \<le> a < 2 ^ (e + 1)\<close>.\<close>

definition floor_log2 :: "rat \<Rightarrow> int" where
  "floor_log2 a =
     (if 1 \<le> a then bitlen \<lfloor>a\<rfloor> - 1
      else - bitlen (\<lceil>1 / a\<rceil> - 1))"

definition pow2 :: "int \<Rightarrow> rat" where
  "pow2 e = (if 0 \<le> e then 2 ^ nat e else 1 / 2 ^ nat (- e))"

text \<open>Rounding to the nearest integer, a tie going to the even one.\<close>

definition round_half_even :: "rat \<Rightarrow> int" where
  "round_half_even q =
     (let f = \<lfloor>q\<rfloor>; r = q - of_int f
      in if r < 1 / 2 then f
         else if 1 / 2 < r then f + 1
         else if even f then f else f + 1)"

text \<open>
  The binary64 number nearest to a rational, a tie going to the even significand: 53
  significant bits, the unit in the last place never below \<open>2 ^ - 1074\<close>, and an infinity
  from \<open>2 ^ 1024\<close> on.
\<close>

definition to_double :: "rat \<Rightarrow> double" where
  "to_double q =
     (if q = 0 then Finite 0
      else
        (let a = \<bar>q\<bar>;
             e = max (floor_log2 a) (- 1022);
             ulp = pow2 (e - 52);
             v = of_int (round_half_even (a / ulp)) * ulp
         in if pow2 1024 \<le> v then (if q < 0 then NegInf else PosInf)
            else if v = 0 then (if q < 0 then NegZero else Finite 0)
            else Finite (if q < 0 then - v else v)))"

text \<open>
  \<open>round(x, ndigits)\<close> on a float, for \<open>ndigits \<ge> 0\<close>: the exact value of \<open>x\<close> is rounded
  to \<open>ndigits\<close> decimal places, a tie going to the even digit, and the decimal is read
  back as the nearest float; the sign of \<open>x\<close> is kept. Infinities and not-a-number are
  returned as they are, and so is every \<open>x\<close> when \<open>ndigits\<close> exceeds 323.
\<close>

definition py_round :: "double \<Rightarrow> nat \<Rightarrow> double" where
  "py_round x ndigits =
     (case x of
        Finite q \<Rightarrow>
          (if 323 < ndigits then x
           else
             (let r = of_int (round_half_even (q * 10 ^ ndigits)) / 10 ^ ndigits
              in if r = 0 \<and> q < 0 then NegZero else to_double r))
      | _ \<Rightarrow> x)"

subsection \<open>Text\<close>

definition is_digit :: "char \<Rightarrow> bool" where
  "is_digit c = (48 \<le> (of_char c :: nat) \<and> (of_char c :: nat) \<le> 57)"

definition digit_val :: "char \<Rightarrow> int" where
  "digit_val c = of_char c - 48"

text \<open>
  The characters that \<open>int\<close> skips at both ends of a text (code points up to 255): tab,
  line feed, vertical tab, form feed, carriage return, space, next line, no-break space.
\<close>

definition int_space :: "char \<Rightarrow> bool" where
  "int_space c = ((of_char c :: nat) \<in> {9, 10, 11, 12, 13, 32, 133, 160})"

text \<open>
  The digits after the first one: a digit, or one underscore followed by a digit.
\<close>

fun parse_digits :: "int \<Rightarrow> string \<Rightarrow> int option" where
  "parse_digits acc [] = Some acc"
| "parse_digits acc [c] = (if is_digit c then Some (acc * 10 + digit_val c) else None)"
| "parse_digits acc (c # d # ds) =
     (if is_digit c then parse_digits (acc * 10 + digit_val c) (d # ds)
      else if c = CHR ''_'' \<and> is_digit d then parse_digits (acc * 10 + digit_val d) ds
      else None)"

text \<open>\<open>int(s)\<close> on text, base 10; \<open>None\<close> where it raises \<open>ValueError\<close>.\<close>

definition int_of_str :: "string \<Rightarrow> int option" where
  "int_of_str s =
     (let t = rev (dropWhile int_space (rev (dropWhile int_space s)));
          neg = (case t of [] \<Rightarrow> False | c # r \<Rightarrow> c = CHR ''-'');
          u = (case t of [] \<Rightarrow> [] | c # r \<Rightarrow> if c = CHR ''+'' \<or> c = CHR ''-'' then r else t)
      in case u of
           [] \<Rightarrow> None
         | c # cs \<Rightarrow>
             (if is_digit c then
                map_option (\<lambda>n. if neg then - n else n) (parse_digits (digit_val c) cs)
              else None))"

definition hex_digit :: "nat \<Rightarrow> char" where
  "hex_digit d = (if d < 10 then char_of (48 + d) else char_of (87 + d))"

text \<open>\<open>repr(s)\<close> on text, for code points up to 255.\<close>

definition repr_char :: "char \<Rightarrow> char \<Rightarrow> string" where
  "repr_char q c =
     (let n = (of_char c :: nat)
      in if c = CHR 92 then [CHR 92, CHR 92]
         else if c = q then [CHR 92, q]
         else if n = 9 then [CHR 92, CHR ''t'']
         else if n = 10 then [CHR 92, CHR ''n'']
         else if n = 13 then [CHR 92, CHR ''r'']
         else if n < 32 \<or> (127 \<le> n \<and> n \<le> 160) \<or> n = 173
           then [CHR 92, CHR ''x'', hex_digit (n div 16), hex_digit (n mod 16)]
         else [c])"

definition py_repr_str :: "string \<Rightarrow> string" where
  "py_repr_str s =
     (let q = (if CHR 39 \<in> set s \<and> CHR 34 \<notin> set s then CHR 34 else CHR 39)
      in q # concat (map (repr_char q) s) @ [q])"

text \<open>
  \<open>s.upper()\<close>: the letters \<open>a\<close> to \<open>z\<close> become capitals. The capitals of the other
  characters are not ASCII letters, so they are left as they are.
\<close>

definition upper_char :: "char \<Rightarrow> char" where
  "upper_char c =
     (if 97 \<le> (of_char c :: nat) \<and> (of_char c :: nat) \<le> 122
      then char_of ((of_char c :: nat) - 32) else c)"

definition upper :: "string \<Rightarrow> string" where
  "upper s = map upper_char s"

subsection \<open>\<open>bool\<close>, \<open>int\<close>, \<open>float\<close>\<close>

fun py_bool :: "pyval \<Rightarrow> bool" where
  "py_bool PNone = False"
| "py_bool (PBool b) = b"
| "py_bool (PInt i) = (i \<noteq> 0)"
| "py_bool (PFloat x) = (x \<noteq> Finite 0 \<and> x \<noteq> NegZero)"
| "py_bool (PStr s) = (s \<noteq> [])"

fun py_int :: "pyval \<Rightarrow> exc + int" where
  "py_int PNone =
     Inl (Exc TypeError (''int() argument must be a string, a bytes-like object or a real number, not ''
            @ [CHR 39] @ ''NoneType'' @ [CHR 39]))"
| "py_int (PBool b) = Inr (if b then 1 else 0)"
| "py_int (PInt i) = Inr i"
| "py_int (PFloat x) =
     (case x of
        Finite q \<Rightarrow> Inr (if 0 \<le> q then \<lfloor>q\<rfloor> else \<lceil>q\<rceil>)
      | NegZero \<Rightarrow> Inr 0
      | NaN \<Rightarrow> Inl (Exc ValueError ''cannot convert float NaN to integer'')
      | _ \<Rightarrow> Inl (Exc OverflowError ''cannot convert float infinity to integer''))"
| "py_int (PStr s) =
     (case int_of_str s of
        Some i \<Rightarrow> Inr i
      | None \<Rightarrow>
          Inl (Exc ValueError (''invalid literal for int() with base 10: '' @ py_repr_str s)))"

fun py_float :: "module_globals \<Rightarrow> pyval \<Rightarrow> exc + double" where
  "py_float g PNone =
     Inl (Exc TypeError (''float() argument must be a string or a real number, not ''
            @ [CHR 39] @ ''NoneType'' @ [CHR 39]))"
| "py_float g (PBool b) = Inr (Finite (if b then 1 else 0))"
| "py_float g (PInt i) =
     (case to_double (of_int i) of
        PosInf \<Rightarrow> Inl (Exc OverflowError ''int too large to convert to float'')
      | NegInf \<Rightarrow> Inl (Exc OverflowError ''int too large to convert to float'')
      | x \<Rightarrow> Inr x)"
| "py_float g (PFloat x) = Inr x"
| "py_float g (PStr s) =
     (case float_of_str g s of
        Some x \<Rightarrow> Inr x
      | None \<Rightarrow> Inl (Exc ValueError (''could not convert string to float: '' @ py_repr_str s)))"

section \<open>Marshalling\<close>

subsection \<open>\<open>_extract_value\<close>\<close>

text \<open>
  The branches on \<open>WhichOneof('value')\<close>, in the order of the source. No branch raises
  on a value of the union, so the handler of the method, which logs a warning and
  returns \<open>None\<close>, is never entered.
\<close>

definition extract_value :: "data_item \<Rightarrow> pyval" where
  "extract_value item =
     (case item_value item of
        BoolValue b \<Rightarrow> PBool b
      | Int8Value i \<Rightarrow> PInt i
      | Int16Value i \<Rightarrow> PInt i
      | Int32Value i \<Rightarrow> PInt i
      | Int64Value i \<Rightarrow> PInt i
      | Uint8Value i \<Rightarrow> PInt i
      | Uint16Value i \<Rightarrow> PInt i
      | Uint32Value i \<Rightarrow> PInt i
      | Uint64Value i \<Rightarrow> PInt i
      | FloatValue x \<Rightarrow> PFloat (py_round x 6)
      | DoubleValue x \<Rightarrow> PFloat (py_round x 6)
      | StringValue s \<Rightarrow> PStr s
      | OtherValue n \<Rightarrow> PNone
      | Unset \<Rightarrow> PNone)"

subsection \<open>\<open>_create_typed_value\<close>\<close>

text \<open>
  \<open>isinstance\<close> with the payload it finds. \<open>bool\<close> is a subclass of \<open>int\<close>, so a boolean
  is an instance of \<open>int\<close> as well, with the value 0 or 1.
\<close>

fun as_bool :: "pyval \<Rightarrow> bool option" where
  "as_bool (PBool b) = Some b"
| "as_bool v = None"

fun as_int :: "pyval \<Rightarrow> int option" where
  "as_int (PBool b) = Some (if b then 1 else 0)"
| "as_int (PInt i) = Some i"
| "as_int v = None"

fun as_float :: "pyval \<Rightarrow> double option" where
  "as_float (PFloat x) = Some x"
| "as_float v = None"

definition assign_field :: "pb2_module \<Rightarrow> typed_value \<Rightarrow> exc + typed_value" where
  "assign_field m tv = (case field_check m tv of Some e \<Rightarrow> Inl e | None \<Rightarrow> Inr tv)"

definition on_ok :: "exc + 'a \<Rightarrow> ('a \<Rightarrow> exc + 'b) \<Rightarrow> exc + 'b" where
  "on_ok r f = (case r of Inl e \<Rightarrow> Inl e | Inr x \<Rightarrow> f x)"

text \<open>
  The body of the \<open>try\<close> gives the typed value or the exception; the handler logs the
  exception and raises it again.
\<close>

definition create_typed_value ::
  "module_globals \<Rightarrow> GrpcClient \<Rightarrow> pyval \<Rightarrow> string \<Rightarrow> typed_value call" where
  "create_typed_value g self val data_type =
     (let body =
            (case plcnext_pb2 g of
               None \<Rightarrow> Inl (name_error ''plcnext_pb2'')
             | Some m \<Rightarrow>
                 (let dt = upper data_type
                  in if dt = ''BOOL'' then assign_field m (BoolValue (py_bool val))
                     else if dt \<in> set [''INT'', ''INT16'']
                       then on_ok (py_int val) (\<lambda>i. assign_field m (Int16Value i))
                     else if dt \<in> set [''DINT'', ''INT32'']
                       then on_ok (py_int val) (\<lambda>i. assign_field m (Int32Value i))
                     else if dt \<in> set [''UINT'', ''UINT16'']
                       then on_ok (py_int val) (\<lambda>i. assign_field m (Uint16Value i))
                     else if dt \<in> set [''UDINT'', ''UINT32'']
                       then on_ok (py_int val) (\<lambda>i. assign_field m (Uint32Value i))
                     else if dt \<in> set [''LREAL'', ''DOUBLE'', ''FLOAT64'']
                       then on_ok (py_float g val) (\<lambda>x. assign_field m (DoubleValue x))
                     else if dt \<in> set [''REAL'', ''FLOAT'']
                       then on_ok (py_float g val) (\<lambda>x. assign_field m (FloatValue x))
                     else if dt \<in> set [''STRING'', ''WSTRING'']
                       then assign_field m (StringValue (py_str g val))
                     else
                       (case as_bool val of
                          Some b \<Rightarrow> assign_field m (BoolValue b)
                        | None \<Rightarrow>
                            (case as_int val of
                               Some i \<Rightarrow> assign_field m (Int32Value i)
                             | None \<Rightarrow>
                                 (case as_float val of
                                    Some x \<Rightarrow> assign_field m (DoubleValue x)
                                  | None \<Rightarrow> assign_field m (StringValue (py_str g val)))))))
      in case body of
           Inr typed \<Rightarrow> \<lparr>outcome = Inr typed, self_after = self, logged = []\<rparr>
         | Inl e \<Rightarrow>
             \<lparr>outcome = Inl e, self_after = self,
              logged = [(ERROR, ''Type conversion error: '' @ str_exc e)]\<rparr>)"

section \<open>Reading and writing\<close>

definition none_has_no_attribute :: "string \<Rightarrow> exc" where
  "none_has_no_attribute a =
     Exc AttributeError
       ([CHR 39] @ ''NoneType'' @ [CHR 39] @ '' object has no attribute '' @ [CHR 39] @ a @ [CHR 39])"

text \<open>
  \<open>self.stub.Read(request)\<close> after the request has been built from \<open>plcnext_pb2\<close>: the
  items of the reply, or the exception.
\<close>

definition read_request :: "module_globals \<Rightarrow> GrpcClient \<Rightarrow> string list \<Rightarrow> exc + data_item list" where
  "read_request g self names =
     (case plcnext_pb2 g of
        None \<Rightarrow> Inl (name_error ''plcnext_pb2'')
      | Some m \<Rightarrow>
          (case stub self of
             None \<Rightarrow> Inl (none_has_no_attribute ''Read'')
           | Some st \<Rightarrow> Read st names))"

subsection \<open>\<open>read_single\<close>\<close>

definition read_single ::
  "module_globals \<Rightarrow> GrpcClient \<Rightarrow> string \<Rightarrow> (string, pyval) dict call" where
  "read_single g self port_name =
     (case is_connected g self of
        Inl e \<Rightarrow> \<lparr>outcome = Inl e, self_after = self, logged = []\<rparr>
      | Inr False \<Rightarrow>
          (let v = (case dict_get (sim_data self) port_name of None \<Rightarrow> PNone | Some x \<Rightarrow> x)
           in \<lparr>outcome = Inr [(''port_name'', PStr port_name), (''value'', v),
                               (''success'', PBool True), (''simulated'', PBool True)],
               self_after = self, logged = []\<rparr>)
      | Inr True \<Rightarrow>
          (case read_request g self [port_name] of
             Inr [] \<Rightarrow>
               \<lparr>outcome = Inr [(''port_name'', PStr port_name), (''value'', PNone),
                                (''success'', PBool False)],
                self_after = self, logged = []\<rparr>
           | Inr (item # rest) \<Rightarrow>
               \<lparr>outcome = Inr [(''port_name'', PStr port_name), (''value'', extract_value item),
                                (''success'', PBool True), (''simulated'', PBool False)],
                self_after = self, logged = []\<rparr>
           | Inl e \<Rightarrow>
               \<lparr>outcome = Inr [(''port_name'', PStr port_name), (''value'', PNone),
                                (''success'', PBool False), (''error'', PStr (str_exc e))],
                self_after = self,
                logged = [(ERROR, ''Read error for '' @ port_name @ '': '' @ str_exc e)]\<rparr>))"

subsection \<open>\<open>read_multiple\<close>\<close>

definition read_multiple ::
  "module_globals \<Rightarrow> GrpcClient \<Rightarrow> string list \<Rightarrow> (string, pyval) dict list call" where
  "read_multiple g self port_names =
     (case is_connected g self of
        Inl e \<Rightarrow> \<lparr>outcome = Inl e, self_after = self, logged = []\<rparr>
      | Inr False \<Rightarrow>
          \<lparr>outcome = Inr (map (\<lambda>name.
               [(''port_name'', PStr name),
                (''value'', (case dict_get (sim_data self) name of None \<Rightarrow> PNone | Some x \<Rightarrow> x)),
                (''success'', PBool True), (''simulated'', PBool True)]) port_names),
           self_after = self, logged = []\<rparr>
      | Inr True \<Rightarrow>
          (case read_request g self port_names of
             Inr items \<Rightarrow>
               \<lparr>outcome = Inr (map (\<lambda>item.
                    [(''port_name'', PStr (portName item)), (''value'', extract_value item),
                     (''success'', PBool True), (''simulated'', PBool False)]) items),
                self_after = self, logged = []\<rparr>
           | Inl e \<Rightarrow>
               \<lparr>outcome = Inr (map (\<lambda>name.
                    [(''port_name'', PStr name), (''value'', PNone),
                     (''success'', PBool False), (''error'', PStr (str_exc e))]) port_names),
                self_after = self,
                logged = [(ERROR, ''Read multiple error: '' @ str_exc e)]\<rparr>))"

subsection \<open>\<open>write_single\<close>\<close>

text \<open>
  In the live branch every statement is inside the \<open>try\<close>: an exception of the encoding,
  of building the messages or of the call is logged and the method returns \<open>False\<close>.
\<close>

definition write_single ::
  "module_globals \<Rightarrow> GrpcClient \<Rightarrow> string \<Rightarrow> pyval \<Rightarrow> string \<Rightarrow> bool call" where
  "write_single g self port_name val data_type =
     (case is_connected g self of
        Inl e \<Rightarrow> \<lparr>outcome = Inl e, self_after = self, logged = []\<rparr>
      | Inr False \<Rightarrow>
          \<lparr>outcome = Inr True,
           self_after = self\<lparr>sim_data := dict_set (sim_data self) port_name val\<rparr>,
           logged = [(DEBUG, ''[SIM] Write '' @ port_name @ '' = '' @ py_str g val)]\<rparr>
      | Inr True \<Rightarrow>
          (let enc = create_typed_value g self val data_type;
               sent =
                 on_ok (outcome enc) (\<lambda>typed_value.
                   case plcnext_pb2 g of
                     None \<Rightarrow> Inl (name_error ''plcnext_pb2'')
                   | Some m \<Rightarrow>
                       (case stub self of
                          None \<Rightarrow> Inl (none_has_no_attribute ''Write'')
                        | Some st \<Rightarrow>
                            Write st [\<lparr>portName = port_name, item_value = typed_value\<rparr>]))
           in case sent of
                Inr response \<Rightarrow>
                  \<lparr>outcome = Inr True, self_after = self, logged = logged enc\<rparr>
              | Inl e \<Rightarrow>
                  \<lparr>outcome = Inr False, self_after = self,
                   logged = logged enc @
                     [(ERROR, ''Write error for '' @ port_name @ ''='' @ py_str g val
                                @ '': '' @ str_exc e)]\<rparr>))"

text \<open>The default of the third parameter.\<close>

definition AUTO :: string where
  "AUTO = ''AUTO''"

subsection \<open>\<open>update_sim\<close> and \<open>get_sim_data\<close>\<close>

definition update_sim :: "GrpcClient \<Rightarrow> string \<Rightarrow> pyval \<Rightarrow> GrpcClient" where
  "update_sim self port_name val = self\<lparr>sim_data := dict_set (sim_data self) port_name val\<rparr>"

definition get_sim_data :: "GrpcClient \<Rightarrow> (string, pyval) dict" where
  "get_sim_data self = sim_data self"

section \<open>Example environments\<close>

text \<open>A \<open>grpc\<close> package whose calls do not raise, and one that cannot open any channel.\<close>

definition quiet_grpc :: grpc_module where
  "quiet_grpc =
     \<lparr>local_channel_credentials = None, secure_channel = (\<lambda>a. None),
      insecure_channel = (\<lambda>a. None)\<rparr>"

definition failing_grpc :: grpc_module where
  "failing_grpc =
     \<lparr>local_channel_credentials = None,
      secure_channel = (\<lambda>a. Some (Exc RpcError ''cannot open channel'')),
      insecure_channel = (\<lambda>a. Some (Exc RpcError ''cannot open channel''))\<rparr>"

text \<open>
  A message module that accepts every assignment, and a remote service that answers a
  read with the value 7 for the first requested name only and accepts every write.
\<close>

definition lenient_pb2 :: pb2_module where
  "lenient_pb2 = \<lparr>field_check = (\<lambda>tv. None)\<rparr>"

definition first_only_stub :: stub_obj where
  "first_only_stub =
     \<lparr>Read = (\<lambda>names. Inr (map (\<lambda>n. \<lparr>portName = n, item_value = Int32Value 7\<rparr>) (take 1 names))),
      Write = (\<lambda>items. Inr ())\<rparr>"

definition down_stub :: stub_obj where
  "down_stub =
     \<lparr>Read = (\<lambda>names. Inl (Exc RpcError ''unavailable'')),
      Write = (\<lambda>items. Inl (Exc RpcError ''unavailable''))\<rparr>"

text \<open>
  Globals in which the three names are bound: \<open>GRPC_AVAILABLE\<close> to the given truth value,
  the message module to \<open>lenient_pb2\<close> and the stub class to one that yields the given
  stub.
\<close>

definition bound_globals :: "bool \<Rightarrow> grpc_module \<Rightarrow> stub_obj \<Rightarrow> module_globals" where
  "bound_globals avail lib st =
     \<lparr>GRPC_AVAILABLE = Some avail, plcnext_pb2 = Some lenient_pb2,
      plcnext_pb2_grpc = Some \<lparr>DataAccessServiceStub = (\<lambda>ch. Inr st)\<rparr>,
      grpc = lib, float_repr = (\<lambda>x. ''0.0''), float_of_str = (\<lambda>s. None)\<rparr>"

text \<open>
  A client in simulation with two variables in its store, and a client whose
  \<open>_connected\<close> is true and whose stub is the given one.
\<close>

definition sim_client :: GrpcClient where
  "sim_client =
     \<lparr>address = ''localhost:50051'', channel = None, stub = None, connected_flag = False,
      sim_data = [(''A.B'', PInt 1), (''C.D'', PBool True)]\<rparr>"

definition live_client :: "stub_obj \<Rightarrow> GrpcClient" where
  "live_client st =
     \<lparr>address = ''localhost:50051'', channel = Some (InsecureChannel ''localhost:50051''),
      stub = Some st, connected_flag = True,
      sim_data = [(''A.B'', PInt 1), (''C.D'', PBool True)]\<rparr>"

text \<open>The declared types that \<open>_create_typed_value\<close> names, after \<open>upper()\<close>.\<close>

definition int_type_names :: "string list" where
  "int_type_names =
     [''INT'', ''INT16'', ''DINT'', ''INT32'', ''UINT'', ''UINT16'', ''UDINT'', ''UINT32'']"

definition float_type_names :: "string list" where
  "float_type_names = [''LREAL'', ''DOUBLE'', ''FLOAT64'', ''REAL'', ''FLOAT'']"

definition declared_type_names :: "string list" where
  "declared_type_names = ''BOOL'' # int_type_names @ float_type_names @ [''STRING'', ''WSTRING'']"

text \<open>Whether a typed value is one of the eight integer fields of the union.\<close>

fun is_int_field :: "typed_value \<Rightarrow> bool" where
  "is_int_field (Int8Value i) = True"
| "is_int_field (Int16Value i) = True"
| "is_int_field (Int32Value i) = True"
| "is_int_field (Int64Value i) = True"
| "is_int_field (Uint8Value i) = True"
| "is_int_field (Uint16Value i) = True"
| "is_int_field (Uint32Value i) = True"
| "is_int_field (Uint64Value i) = True"
| "is_int_field tv = False"

section \<open>Simulation\<close>

lemma is_connected_sim_data [simp]:
  "is_connected g (self\<lparr>sim_data := d\<rparr>) = is_connected g self"
  by (simp add: is_connected_def)

lemma dict_get_set_same: "dict_get (dict_set d k v) k = Some v"
  by (simp add: dict_get_def dict_set_def update_conv')

lemma dict_get_set_other: "k' \<noteq> k \<Longrightarrow> dict_get (dict_set d k v) k' = dict_get d k'"
  by (simp add: dict_get_def dict_set_def update_conv')

lemma dict_keys_set:
  "dict_keys (dict_set d k v) = (if k \<in> set (dict_keys d) then dict_keys d else dict_keys d @ [k])"
  by (simp add: dict_keys_def dict_set_def update_keys)

lemma sim_client_is_sim: "is_connected g sim_client = Inr False"
  by (simp add: is_connected_def sim_client_def)



text \<open>
  C4. In simulation, \<open>read_single\<close> of a name that is not a key of the store returns
  \<open>success\<close> true with the value \<open>None\<close>; it never returns \<open>success\<close> false.
\<close>

theorem sim_read_missing_key:
  assumes "is_connected g self = Inr False" and "n \<notin> set (dict_keys (sim_data self))"
  shows "outcome (read_single g self n) =
           Inr [(''port_name'', PStr n), (''value'', PNone),
                (''success'', PBool True), (''simulated'', PBool True)]"
proof -
  from assms(2) have "dict_get (sim_data self) n = None"
    by (simp add: dict_get_def dict_keys_def map_of_eq_None_iff)
  with assms(1) show ?thesis
    by (simp add: read_single_def)
qed

theorem sim_read_missing_key_witness:
  "is_connected (bound_globals False quiet_grpc down_stub) sim_client = Inr False \<and>
   ''X.Y'' \<notin> set (dict_keys (sim_data sim_client)) \<and>
   outcome (read_single (bound_globals False quiet_grpc down_stub) sim_client ''X.Y'') =
     Inr [(''port_name'', PStr ''X.Y''), (''value'', PNone),
          (''success'', PBool True), (''simulated'', PBool True)]"
proof -
  have k: "''X.Y'' \<notin> set (dict_keys (sim_data sim_client))"
    by (simp add: sim_client_def dict_keys_def)
  show ?thesis
    using sim_read_missing_key [OF sim_client_is_sim k] sim_client_is_sim k by simp
qed

text \<open>
  C10. In simulation, \<open>read_single\<close> and \<open>read_multiple\<close> leave the client, and so its
  store, as it was. \<open>write_single(n, v)\<close> changes the \<open>_sim_data\<close> field only: afterwards
  \<open>n\<close> maps to \<open>v\<close>, every other key maps to what it mapped to before, the keys are the
  old ones in their order, with \<open>n\<close> appended when it is new, and the address, the
  channel, the stub and \<open>_connected\<close> are unchanged.
\<close>

theorem sim_frame:
  assumes "is_connected g self = Inr False"
  shows "self_after (read_single g self n) = self \<and>
         self_after (read_multiple g self ns) = self \<and>
         self_after (write_single g self n v dt) =
           self\<lparr>sim_data := sim_data (self_after (write_single g self n v dt))\<rparr> \<and>
         dict_get (sim_data (self_after (write_single g self n v dt))) n = Some v \<and>
         (\<forall>k. k \<noteq> n \<longrightarrow>
            dict_get (sim_data (self_after (write_single g self n v dt))) k
              = dict_get (sim_data self) k) \<and>
         dict_keys (sim_data (self_after (write_single g self n v dt))) =
           (if n \<in> set (dict_keys (sim_data self)) then dict_keys (sim_data self)
            else dict_keys (sim_data self) @ [n])"
  using assms
  by (simp add: read_single_def read_multiple_def write_single_def
        dict_get_set_same dict_get_set_other dict_keys_set)

theorem sim_frame_witness:
  "is_connected (bound_globals False quiet_grpc down_stub) sim_client = Inr False \<and>
   self_after (read_single (bound_globals False quiet_grpc down_stub) sim_client ''A.B'')
     = sim_client \<and>
   self_after (read_multiple (bound_globals False quiet_grpc down_stub) sim_client
                 [''A.B'', ''X.Y'']) = sim_client \<and>
   ''C.D'' \<noteq> ''A.B'' \<and>
   dict_get (sim_data (self_after (write_single (bound_globals False quiet_grpc down_stub)
                                     sim_client ''A.B'' (PInt 5) AUTO))) ''C.D''
     = dict_get (sim_data sim_client) ''C.D''"
  using sim_frame [OF sim_client_is_sim,
      of "bound_globals False quiet_grpc down_stub" "''A.B''" "[''A.B'', ''X.Y'']" "PInt 5" AUTO]
    sim_client_is_sim [of "bound_globals False quiet_grpc down_stub"]
  by simp

section \<open>Construction\<close>

lemma connect_keeps_flag_on_error:
  "outcome (connect g self) = Inl e \<Longrightarrow>
     connected_flag (self_after (connect g self)) = connected_flag self \<and>
     logged (connect g self) = []"
  by (auto simp: connect_def Let_def split: if_splits option.splits sum.splits)

text \<open>
  When \<open>GRPC_AVAILABLE\<close> is bound, the constructor returns: an exception of \<open>_connect\<close>
  is logged with its text and leaves the client in simulation.
\<close>

lemma init_with_bound_name:
  assumes "GRPC_AVAILABLE g = Some b"
  shows "outcome (init g addr) = Inr () \<and>
         (\<forall>e. b \<and> outcome (connect g
                   \<lparr>address = addr, channel = None, stub = None, connected_flag = False,
                    sim_data = init_sim_data\<rparr>) = Inl e \<longrightarrow>
              is_connected g (self_after (init g addr)) = Inr False \<and>
              logged (init g addr) =
                [(ERROR, ''gRPC connection failed: '' @ str_exc e
                           @ ''. Switching to simulation mode.'')])"
  using assms
  by (cases b)
     (auto simp: init_def Let_def is_connected_def connect_keeps_flag_on_error
           split: sum.splits)

text \<open>
  C1. The module never binds \<open>GRPC_AVAILABLE\<close>, and \<open>__init__\<close> reads the name outside
  its \<open>try\<close>: for every address, and whatever the \<open>grpc\<close> package does, the constructor
  raises \<open>NameError\<close> and logs nothing.
\<close>

theorem init_raises_name_error:
  "outcome (init (source_globals lib fr fs) addr) = Inl (name_error ''GRPC_AVAILABLE'') \<and>
   logged (init (source_globals lib fr fs) addr) = []"
  by (simp add: init_def source_globals_def)

section \<open>The shape of results\<close>




section \<open>Encoding\<close>

lemma live_bound_is_live:
  "is_connected (bound_globals True lib st) (live_client st') = Inr True"
  by (simp add: is_connected_def bound_globals_def live_client_def)

lemma bound_globals_pb2: "plcnext_pb2 (bound_globals avail lib st) = Some lenient_pb2"
  by (simp add: bound_globals_def)

lemma upper_AUTO: "upper AUTO = ''AUTO''"
  unfolding AUTO_def by code_simp

lemma upper_DINT: "upper ''DINT'' = ''DINT''"
  by code_simp

lemma upper_dint: "upper ''dint'' = ''DINT''"
  by code_simp

lemma int_of_str_abc: "int_of_str ''abc'' = None"
  by code_simp

lemma py_int_abc:
  "py_int (PStr ''abc'') =
     Inl (Exc ValueError (''invalid literal for int() with base 10: '' @ py_repr_str ''abc''))"
  by (simp add: int_of_str_abc)

text \<open>The method with the declared type not among the known names: only the last branch is left.\<close>

lemma create_typed_value_auto:
  assumes "upper dt \<notin> set declared_type_names"
  shows "outcome (create_typed_value g self v dt) =
        (case plcnext_pb2 g of
           None \<Rightarrow> Inl (name_error ''plcnext_pb2'')
         | Some m \<Rightarrow>
             (case as_bool v of
                Some b \<Rightarrow> assign_field m (BoolValue b)
              | None \<Rightarrow>
                  (case as_int v of
                     Some i \<Rightarrow> assign_field m (Int32Value i)
                   | None \<Rightarrow>
                       (case as_float v of
                          Some x \<Rightarrow> assign_field m (DoubleValue x)
                        | None \<Rightarrow> assign_field m (StringValue (py_str g v))))))"
  using assms
  by (auto simp: create_typed_value_def Let_def declared_type_names_def int_type_names_def
        float_type_names_def split: option.splits sum.splits)

lemma create_int_error:
  assumes "plcnext_pb2 g = Some m" and "upper dt \<in> set int_type_names" and "py_int val = Inl e"
  shows "outcome (create_typed_value g self val dt) = Inl e"
  using assms
  by (auto simp: create_typed_value_def Let_def int_type_names_def on_ok_def)

lemma create_float_error:
  assumes "plcnext_pb2 g = Some m" and "upper dt \<in> set float_type_names"
    and "py_float g val = Inl e"
  shows "outcome (create_typed_value g self val dt) = Inl e"
  using assms
  by (auto simp: create_typed_value_def Let_def float_type_names_def on_ok_def)

lemma create_unbound:
  assumes "plcnext_pb2 g = None"
  shows "outcome (create_typed_value g self v d) = Inl (name_error ''plcnext_pb2'')"
  using assms by (simp add: create_typed_value_def)

lemma create_outcome_cases:
  "create_typed_value g self v d =
     (case outcome (create_typed_value g self v d) of
        Inr typed \<Rightarrow> \<lparr>outcome = Inr typed, self_after = self, logged = []\<rparr>
      | Inl e \<Rightarrow> \<lparr>outcome = Inl e, self_after = self,
                   logged = [(ERROR, ''Type conversion error: '' @ str_exc e)]\<rparr>)"
  unfolding create_typed_value_def Let_def
  by (simp split: sum.split)

lemma create_log:
  assumes "outcome (create_typed_value g self v d) = Inl e"
  shows "logged (create_typed_value g self v d) =
           [(ERROR, ''Type conversion error: '' @ str_exc e)]"
  by (subst create_outcome_cases) (simp add: assms)

lemma write_on_encoding_error:
  assumes "is_connected g self = Inr True" and "outcome (create_typed_value g self v d) = Inl e"
  shows "outcome (write_single g self n v d) = Inr False \<and>
        self_after (write_single g self n v d) = self \<and>
        logged (write_single g self n v d) =
          [(ERROR, ''Type conversion error: '' @ str_exc e),
           (ERROR, ''Write error for '' @ n @ ''='' @ py_str g v @ '': '' @ str_exc e)]"
  using assms by (simp add: write_single_def Let_def on_ok_def create_log)

lemma create_abc_bound:
  assumes "plcnext_pb2 g = Some m"
  shows "outcome (create_typed_value g self (PStr ''abc'') ''DINT'') =
          Inl (Exc ValueError
                 (''invalid literal for int() with base 10: '' @ py_repr_str ''abc''))"
proof -
  have u: "upper ''DINT'' \<in> set int_type_names"
    by (simp add: upper_DINT int_type_names_def)
  show ?thesis
    by (rule create_int_error [OF assms u py_int_abc])
qed

lemma create_abc_raises:
  "\<exists>e. outcome (create_typed_value g self (PStr ''abc'') ''DINT'') = Inl e"
proof (cases "plcnext_pb2 g")
  case None
  from create_unbound [OF None] show ?thesis by blast
next
  case (Some m)
  from create_abc_bound [OF Some] show ?thesis by blast
qed

text \<open>
  C6. When the upper-cased declared type is none of the names the method knows (as
  for \<open>AUTO\<close>), the field that is assigned follows the kind of the value: a boolean goes
  to \<open>boolValue\<close>, an integer to \<open>int32Value\<close>, a float to \<open>doubleValue\<close>, anything else
  to \<open>stringValue\<close> as its text. Whatever the message module is, a boolean is never
  returned in an integer field.
\<close>

theorem auto_detect_priority:
  assumes "upper dt \<notin> set declared_type_names"
  shows "(\<forall>m. plcnext_pb2 g = Some m \<longrightarrow>
            outcome (create_typed_value g self val dt) =
              assign_field m
                (case val of
                   PBool b \<Rightarrow> BoolValue b
                 | PInt i \<Rightarrow> Int32Value i
                 | PFloat x \<Rightarrow> DoubleValue x
                 | PNone \<Rightarrow> StringValue ''None''
                 | PStr s \<Rightarrow> StringValue s)) \<and>
         (\<forall>b tv. outcome (create_typed_value g self (PBool b) dt) = Inr tv \<longrightarrow>
            tv = BoolValue b \<and> \<not> is_int_field tv)"
proof (intro conjI allI impI)
  fix m
  assume "plcnext_pb2 g = Some m"
  then show "outcome (create_typed_value g self val dt) =
              assign_field m
                (case val of
                   PBool b \<Rightarrow> BoolValue b
                 | PInt i \<Rightarrow> Int32Value i
                 | PFloat x \<Rightarrow> DoubleValue x
                 | PNone \<Rightarrow> StringValue ''None''
                 | PStr s \<Rightarrow> StringValue s)"
    by (cases val) (simp_all add: create_typed_value_auto [OF assms])
next
  fix b tv
  assume r: "outcome (create_typed_value g self (PBool b) dt) = Inr tv"
  then have "tv = BoolValue b"
    by (auto simp: create_typed_value_auto [OF assms] assign_field_def split: option.splits)
  then show "tv = BoolValue b" and "\<not> is_int_field tv"
    by simp_all
qed

theorem auto_detect_priority_witness:
  "upper AUTO \<notin> set declared_type_names \<and>
   plcnext_pb2 (bound_globals True quiet_grpc down_stub) = Some lenient_pb2 \<and>
   outcome (create_typed_value (bound_globals True quiet_grpc down_stub) (live_client down_stub)
              (PBool True) AUTO) = Inr (BoolValue True) \<and>
   outcome (create_typed_value (bound_globals True quiet_grpc down_stub) (live_client down_stub)
              (PInt 42) AUTO) = Inr (Int32Value 42) \<and>
   \<not> is_int_field (BoolValue True)"
proof -
  have h: "upper AUTO \<notin> set declared_type_names"
    by (simp add: upper_AUTO declared_type_names_def int_type_names_def float_type_names_def)
  have m: "plcnext_pb2 (bound_globals True quiet_grpc down_stub) = Some lenient_pb2"
    by (rule bound_globals_pb2)
  have acc: "assign_field lenient_pb2 tv = Inr tv" for tv
    by (simp add: assign_field_def lenient_pb2_def)
  from auto_detect_priority [OF h, where g = "bound_globals True quiet_grpc down_stub"
      and self = "live_client down_stub" and val = "PBool True"] m
  have "outcome (create_typed_value (bound_globals True quiet_grpc down_stub)
                   (live_client down_stub) (PBool True) AUTO) =
          assign_field lenient_pb2 (BoolValue True)"
    by simp
  then have a: "outcome (create_typed_value (bound_globals True quiet_grpc down_stub)
                   (live_client down_stub) (PBool True) AUTO) = Inr (BoolValue True)"
    by (simp only: acc)
  from auto_detect_priority [OF h, where g = "bound_globals True quiet_grpc down_stub"
      and self = "live_client down_stub" and val = "PInt 42"] m
  have "outcome (create_typed_value (bound_globals True quiet_grpc down_stub)
                   (live_client down_stub) (PInt 42) AUTO) =
          assign_field lenient_pb2 (Int32Value 42)"
    by simp
  then have b: "outcome (create_typed_value (bound_globals True quiet_grpc down_stub)
                   (live_client down_stub) (PInt 42) AUTO) = Inr (Int32Value 42)"
    by (simp only: acc)
  have c: "\<not> is_int_field (BoolValue True)"
    by simp
  from h m a b c show ?thesis
    by (intro conjI)
qed

text \<open>
  C7. On a live client, an exception of the conversion (\<open>int(value)\<close> for the integer
  types, \<open>float(value)\<close> for the float types) is the exception that
  \<open>_create_typed_value\<close> raises; and whenever \<open>_create_typed_value\<close> raises,
  \<open>write_single\<close> returns \<open>False\<close>, leaves the client as it was and logs both the
  conversion error and the write error. For the text \<open>abc\<close> and the declared type
  \<open>DINT\<close>, \<open>_create_typed_value\<close> raises and \<open>write_single\<close> returns \<open>False\<close>.
\<close>

theorem encoding_failure_fails_write:
  assumes "is_connected g self = Inr True"
  shows "(\<forall>m e. plcnext_pb2 g = Some m \<and> upper dt \<in> set int_type_names \<and> py_int val = Inl e
            \<longrightarrow> outcome (create_typed_value g self val dt) = Inl e) \<and>
         (\<forall>m e. plcnext_pb2 g = Some m \<and> upper dt \<in> set float_type_names \<and> py_float g val = Inl e
            \<longrightarrow> outcome (create_typed_value g self val dt) = Inl e) \<and>
         (\<forall>e. outcome (create_typed_value g self val dt) = Inl e \<longrightarrow>
            outcome (write_single g self n val dt) = Inr False \<and>
            self_after (write_single g self n val dt) = self \<and>
            logged (write_single g self n val dt) =
              [(ERROR, ''Type conversion error: '' @ str_exc e),
               (ERROR, ''Write error for '' @ n @ ''='' @ py_str g val @ '': '' @ str_exc e)]) \<and>
         (\<exists>e. outcome (create_typed_value g self (PStr ''abc'') ''DINT'') = Inl e) \<and>
         (\<forall>m. plcnext_pb2 g = Some m \<longrightarrow>
            outcome (create_typed_value g self (PStr ''abc'') ''DINT'') =
              Inl (Exc ValueError
                     (''invalid literal for int() with base 10: '' @ py_repr_str ''abc''))) \<and>
         outcome (write_single g self n (PStr ''abc'') ''DINT'') = Inr False"
proof (intro conjI allI impI)
  fix m e
  assume "plcnext_pb2 g = Some m \<and> upper dt \<in> set int_type_names \<and> py_int val = Inl e"
  then show "outcome (create_typed_value g self val dt) = Inl e"
    using create_int_error by blast
next
  fix m e
  assume "plcnext_pb2 g = Some m \<and> upper dt \<in> set float_type_names \<and> py_float g val = Inl e"
  then show "outcome (create_typed_value g self val dt) = Inl e"
    using create_float_error by blast
next
  fix e
  assume r: "outcome (create_typed_value g self val dt) = Inl e"
  note w = write_on_encoding_error [OF assms r, of n]
  from w show "outcome (write_single g self n val dt) = Inr False" by (rule conjunct1)
  from w show "self_after (write_single g self n val dt) = self" by blast
  from w show "logged (write_single g self n val dt) =
              [(ERROR, ''Type conversion error: '' @ str_exc e),
               (ERROR, ''Write error for '' @ n @ ''='' @ py_str g val @ '': '' @ str_exc e)]"
    by blast
next
  show "\<exists>e. outcome (create_typed_value g self (PStr ''abc'') ''DINT'') = Inl e"
    by (rule create_abc_raises)
next
  fix m
  assume "plcnext_pb2 g = Some m"
  then show "outcome (create_typed_value g self (PStr ''abc'') ''DINT'') =
              Inl (Exc ValueError
                     (''invalid literal for int() with base 10: '' @ py_repr_str ''abc''))"
    by (rule create_abc_bound)
next
  from create_abc_raises obtain e
    where "outcome (create_typed_value g self (PStr ''abc'') ''DINT'') = Inl e"
    by blast
  from write_on_encoding_error [OF assms this, of n]
  show "outcome (write_single g self n (PStr ''abc'') ''DINT'') = Inr False"
    by (rule conjunct1)
qed

theorem encoding_failure_fails_write_witness:
  "is_connected (bound_globals True quiet_grpc first_only_stub) (live_client first_only_stub)
     = Inr True \<and>
   plcnext_pb2 (bound_globals True quiet_grpc first_only_stub) = Some lenient_pb2 \<and>
   upper ''dint'' \<in> set int_type_names \<and>
   outcome (create_typed_value (bound_globals True quiet_grpc first_only_stub)
              (live_client first_only_stub) (PStr ''abc'') ''dint'') =
     Inl (Exc ValueError (''invalid literal for int() with base 10: '' @ py_repr_str ''abc'')) \<and>
   outcome (write_single (bound_globals True quiet_grpc first_only_stub)
              (live_client first_only_stub) ''A.B'' (PStr ''abc'') ''dint'') = Inr False"
proof -
  let ?g = "bound_globals True quiet_grpc first_only_stub"
  let ?c = "live_client first_only_stub"
  let ?e = "Exc ValueError (''invalid literal for int() with base 10: '' @ py_repr_str ''abc'')"
  have l: "is_connected ?g ?c = Inr True"
    by (rule live_bound_is_live)
  have m: "plcnext_pb2 ?g = Some lenient_pb2"
    by (rule bound_globals_pb2)
  have u: "upper ''dint'' \<in> set int_type_names"
    by (simp add: upper_dint int_type_names_def)
  note t = encoding_failure_fails_write [OF l, where dt = "''dint''" and val = "PStr ''abc''"
      and n = "''A.B''"]
  from t m u py_int_abc
  have c: "outcome (create_typed_value ?g ?c (PStr ''abc'') ''dint'') = Inl ?e"
    by blast
  with t have w: "outcome (write_single ?g ?c ''A.B'' (PStr ''abc'') ''dint'') = Inr False"
    by blast
  from l m u c w show ?thesis
    by (intro conjI)
qed

section \<open>Batched reads\<close>

text \<open>
  C8. On a live client with a stub, when the \<open>Read\<close> call returns a reply,
  \<open>read_multiple\<close> returns one result for each item of the reply, in the order of the
  reply, under the name that the item itself reports and with \<open>simulated\<close> false; so a
  reply with fewer items than requested names gives fewer results than names. When
  the call raises, \<open>read_multiple\<close> returns one result for each requested name, each
  with the value \<open>None\<close>, \<open>success\<close> false and the text of the exception.
\<close>

theorem live_read_multiple:
  assumes "is_connected g self = Inr True" and "plcnext_pb2 g = Some m" and "stub self = Some st"
  shows "(\<forall>items. Read st names = Inr items \<longrightarrow>
            outcome (read_multiple g self names) =
              Inr (map (\<lambda>item. [(''port_name'', PStr (portName item)),
                                 (''value'', extract_value item),
                                 (''success'', PBool True), (''simulated'', PBool False)]) items) \<and>
            (\<forall>rs. outcome (read_multiple g self names) = Inr rs \<longrightarrow>
               length rs = length items \<and>
               (length items < length names \<longrightarrow> length rs < length names))) \<and>
         (\<forall>e. Read st names = Inl e \<longrightarrow>
            outcome (read_multiple g self names) =
              Inr (map (\<lambda>name. [(''port_name'', PStr name), (''value'', PNone),
                                 (''success'', PBool False), (''error'', PStr (str_exc e))]) names))"
  using assms by (auto simp: read_multiple_def read_request_def)

theorem live_read_multiple_witness:
  "is_connected (bound_globals True quiet_grpc first_only_stub) (live_client first_only_stub)
     = Inr True \<and>
   Read first_only_stub [''A.B'', ''C.D''] =
     Inr [\<lparr>portName = ''A.B'', item_value = Int32Value 7\<rparr>] \<and>
   outcome (read_multiple (bound_globals True quiet_grpc first_only_stub)
              (live_client first_only_stub) [''A.B'', ''C.D'']) =
     Inr [[(''port_name'', PStr ''A.B''), (''value'', PInt 7),
           (''success'', PBool True), (''simulated'', PBool False)]] \<and>
   Read down_stub [''A.B'', ''C.D''] = Inl (Exc RpcError ''unavailable'') \<and>
   outcome (read_multiple (bound_globals True quiet_grpc down_stub)
              (live_client down_stub) [''A.B'', ''C.D'']) =
     Inr [[(''port_name'', PStr ''A.B''), (''value'', PNone),
           (''success'', PBool False), (''error'', PStr ''unavailable'')],
          [(''port_name'', PStr ''C.D''), (''value'', PNone),
           (''success'', PBool False), (''error'', PStr ''unavailable'')]]"
proof -
  have s: "stub (live_client st) = Some st" for st
    by (simp add: live_client_def)
  have r1: "Read first_only_stub [''A.B'', ''C.D''] =
              Inr [\<lparr>portName = ''A.B'', item_value = Int32Value 7\<rparr>]"
    by (simp add: first_only_stub_def)
  have r2: "Read down_stub [''A.B'', ''C.D''] = Inl (Exc RpcError ''unavailable'')"
    by (simp add: down_stub_def)
  from live_read_multiple [OF live_bound_is_live [of quiet_grpc first_only_stub first_only_stub]
      bound_globals_pb2 s [of first_only_stub], where names = "[''A.B'', ''C.D'']"] r1
  have a: "outcome (read_multiple (bound_globals True quiet_grpc first_only_stub)
              (live_client first_only_stub) [''A.B'', ''C.D'']) =
     Inr [[(''port_name'', PStr ''A.B''), (''value'', PInt 7),
           (''success'', PBool True), (''simulated'', PBool False)]]"
    by (simp add: extract_value_def)
  from live_read_multiple [OF live_bound_is_live [of quiet_grpc down_stub down_stub]
      bound_globals_pb2 s [of down_stub], where names = "[''A.B'', ''C.D'']"] r2
  have b: "outcome (read_multiple (bound_globals True quiet_grpc down_stub)
              (live_client down_stub) [''A.B'', ''C.D'']) =
     Inr [[(''port_name'', PStr ''A.B''), (''value'', PNone),
           (''success'', PBool False), (''error'', PStr ''unavailable'')],
          [(''port_name'', PStr ''C.D''), (''value'', PNone),
           (''success'', PBool False), (''error'', PStr ''unavailable'')]]"
    by simp
  from a b r1 r2 live_bound_is_live [of quiet_grpc first_only_stub first_only_stub]
  show ?thesis
    by (intro conjI)
qed

end
